theory Spec2Isabelle
  imports Main "HOL-Library.Sublist" "HOL-Library.State_Monad"
begin

section \<open>The Factory Method example (design-patterns/creational/factory.ts)\<close>

text \<open>
  The file declares an abstract creator class with one abstract method and one inherited
  method, two concrete creators, a product interface with two implementing classes, a
  client function and a top-level script. No class has a field, no method takes an
  argument other than \<open>this\<close>, nothing is thrown and there is no loop; the only effect
  is \<open>console.log\<close>.

  An object is modelled by its method table: an interface or abstract class is a record
  with one field per method that implementers supply, a nullary method \<open>m()\<close> is a
  function from \<open>unit\<close>, and a class without fields is the record value holding its
  method bodies. A method that the subclasses inherit without overriding is a function
  on the record.
\<close>

subsection \<open>Products\<close>

text \<open>\<^verbatim>\<open>interface Transport { operation(): string; }\<close>\<close>

record Transport =
  operation :: "unit \<Rightarrow> string"

text \<open>\<^verbatim>\<open>class Truck implements Transport\<close>: \<^verbatim>\<open>return '{Transport by land}';\<close>\<close>

definition Truck :: Transport where
  "Truck = \<lparr>operation = (\<lambda>_. ''{Transport by land}'')\<rparr>"

text \<open>\<^verbatim>\<open>class Ship implements Transport\<close>: \<^verbatim>\<open>return '{Transport by sea}';\<close>\<close>

definition Ship :: Transport where
  "Ship = \<lparr>operation = (\<lambda>_. ''{Transport by sea}'')\<rparr>"

subsection \<open>Creators\<close>

text \<open>
  \<^verbatim>\<open>abstract class TransportCreator\<close> with
  \<^verbatim>\<open>public abstract factoryMethod(): Transport;\<close>
\<close>

record TransportCreator =
  factoryMethod :: "unit \<Rightarrow> Transport"

text \<open>
  \<^verbatim>\<open>public someOperation(): string\<close> of the abstract class: it calls the factory
  method of \<open>this\<close>, then fills the template literal with the product's
  \<open>operation()\<close>.
\<close>

definition someOperation :: "TransportCreator \<Rightarrow> string" where
  "someOperation this =
     (let transport = factoryMethod this ()
      in ''TransportCreator: The same creator's code has just worked with ''
           @ operation transport ())"

text \<open>\<^verbatim>\<open>class TruckCreator extends TransportCreator\<close>: \<^verbatim>\<open>return new Truck();\<close>\<close>

definition TruckCreator :: TransportCreator where
  "TruckCreator = \<lparr>factoryMethod = (\<lambda>_. Truck)\<rparr>"

text \<open>\<^verbatim>\<open>class ShipCreator extends TransportCreator\<close>: \<^verbatim>\<open>return new Ship();\<close>\<close>

definition ShipCreator :: TransportCreator where
  "ShipCreator = \<lparr>factoryMethod = (\<lambda>_. Ship)\<rparr>"

subsection \<open>Standard output\<close>

text \<open>
  The state of the program is what it has written to standard output: the list of the
  lines printed so far, oldest first. \<open>console.log(s)\<close> writes \<open>s\<close> as the next line
  and returns nothing.
\<close>

type_synonym console = "string list"

definition console_log :: "string \<Rightarrow> (console, unit) state" where
  "console_log s = State_Monad.update (\<lambda>out. out @ [s])"

subsection \<open>Client code and the top-level script\<close>

text \<open>\<^verbatim>\<open>function clientCode(creator: TransportCreator)\<close>\<close>

definition clientCode :: "TransportCreator \<Rightarrow> (console, unit) state" where
  "clientCode creator = do {
     console_log ''Client: I'm not aware of the creator's class, but it still works.'';
     console_log (someOperation creator)
   }"

text \<open>The statements at the top level of the file, which run when the example is invoked.\<close>

definition application :: "(console, unit) state" where
  "application = do {
     console_log ''App: Launched with the TruckCreator.'';
     clientCode TruckCreator;
     console_log [];
     console_log ''App: Launched with the ShipCreator.'';
     clientCode ShipCreator
   }"

section \<open>Properties\<close>

lemma run_console_log:
  "run_state (console_log s) out = ((), out @ [s])"
  by (simp add: console_log_def State_Monad.update_def State_Monad.get_def
      State_Monad.set_def State_Monad.bind_def)

subsection \<open>What the creators return\<close>

text \<open>
  C1: \<open>someOperation\<close> on the Truck creator returns exactly the sentence ending in
  \<open>{Transport by land}\<close>, and on the Ship creator exactly the sentence ending in
  \<open>{Transport by sea}\<close>.
\<close>

theorem someOperation_concrete_creators:
  "someOperation TruckCreator =
     ''TransportCreator: The same creator's code has just worked with {Transport by land}''
   \<and> someOperation ShipCreator =
     ''TransportCreator: The same creator's code has just worked with {Transport by sea}''"
  by (simp add: someOperation_def TruckCreator_def ShipCreator_def Truck_def Ship_def)

text \<open>
  C3, as stated: the strings returned by the two products' \<open>operation\<close> are not the bare
  phrases \<open>Transport by land\<close> and \<open>Transport by sea\<close>.
\<close>

theorem operation_bare_phrase_counterexample:
  "operation Truck () \<noteq> ''Transport by land'' \<and> operation Ship () \<noteq> ''Transport by sea''"
  by (simp add: Truck_def Ship_def)

text \<open>
  C3, amended: each product's \<open>operation\<close> returns its fixed phrase enclosed in braces,
  \<open>{Transport by land}\<close> for Truck and \<open>{Transport by sea}\<close> for Ship, at every call.
\<close>

theorem operation_braced_phrase:
  "operation Truck u = ''{Transport by land}'' \<and> operation Ship u = ''{Transport by sea}''"
  by (simp add: Truck_def Ship_def)

text \<open>
  C4: at every call the factory method of the Truck creator yields a Truck and that of the
  Ship creator yields a Ship. The method has no parameter and reads nothing, so there is
  nothing to configure; the two products are different objects.
\<close>

theorem factoryMethod_matching_product:
  "factoryMethod TruckCreator u = Truck \<and> factoryMethod ShipCreator u = Ship \<and> Truck \<noteq> Ship"
  by (simp add: TruckCreator_def ShipCreator_def Truck_def Ship_def fun_eq_iff)

text \<open>
  C5: the string returned for the Truck creator contains \<open>Transport by land\<close> as a
  contiguous substring and does not contain \<open>Transport by sea\<close>; for the Ship creator it
  is the other way round.
\<close>

theorem someOperation_substrings:
  "sublist ''Transport by land'' (someOperation TruckCreator)
   \<and> \<not> sublist ''Transport by sea'' (someOperation TruckCreator)
   \<and> sublist ''Transport by sea'' (someOperation ShipCreator)
   \<and> \<not> sublist ''Transport by land'' (someOperation ShipCreator)"
  by (simp add: someOperation_def TruckCreator_def ShipCreator_def Truck_def Ship_def
      sublist_Cons_right)


text \<open>
  C9: for every creator, whatever its factory method is and whatever product it makes,
  \<open>someOperation\<close> returns the fixed prefix followed by what \<open>operation\<close> returns on
  the product the factory method yields.
\<close>

theorem someOperation_template:
  "someOperation this =
     ''TransportCreator: The same creator's code has just worked with ''
       @ operation (factoryMethod this ()) ()"
  by (simp add: someOperation_def)

subsection \<open>What is printed\<close>

text \<open>
  C10: for every creator and every earlier output, \<open>clientCode\<close> returns the unit value
  and adds exactly two lines to the output: the fixed client line, then the string that
  \<open>someOperation\<close> returns for that creator. The creator enters only through
  \<open>someOperation\<close>.
\<close>

theorem clientCode_prints_two_lines:
  "run_state (clientCode creator) out =
     ((), out @ [''Client: I'm not aware of the creator's class, but it still works.'',
                 someOperation creator])"
  by (simp add: clientCode_def run_console_log)

text \<open>
  C2, as stated: run from an empty output, the script does not print the four lines
  Truck announcement, Truck result, Ship announcement, Ship result and nothing else; the
  number of lines is not four.
\<close>

theorem application_four_lines_counterexample:
  "snd (run_state application []) \<noteq>
     [''App: Launched with the TruckCreator.'',
      ''TransportCreator: The same creator's code has just worked with {Transport by land}'',
      ''App: Launched with the ShipCreator.'',
      ''TransportCreator: The same creator's code has just worked with {Transport by sea}'']
   \<and> length (snd (run_state application [])) \<noteq> 4"
  by (simp add: application_def clientCode_def run_console_log)

text \<open>
  C2, amended: run from an empty output, the script prints exactly seven lines, in this
  fixed order: the Truck announcement, the client line, the Truck result, an empty line,
  the Ship announcement, the client line, the Ship result. So the Truck announcement, the
  Truck result, the Ship announcement and the Ship result occur once each, in the order
  the claim gives, with the client line before each result and the empty line between the
  two cases.
\<close>

theorem application_seven_lines_named_in_order:
  "snd (run_state application []) =
     [''App: Launched with the TruckCreator.'',
      ''Client: I'm not aware of the creator's class, but it still works.'',
      ''TransportCreator: The same creator's code has just worked with {Transport by land}'',
      [],
      ''App: Launched with the ShipCreator.'',
      ''Client: I'm not aware of the creator's class, but it still works.'',
      ''TransportCreator: The same creator's code has just worked with {Transport by sea}'']
   \<and> length (snd (run_state application [])) = 7
   \<and> filter (\<lambda>line. line \<in>
        {''App: Launched with the TruckCreator.'',
         ''TransportCreator: The same creator's code has just worked with {Transport by land}'',
         ''App: Launched with the ShipCreator.'',
         ''TransportCreator: The same creator's code has just worked with {Transport by sea}''})
       (snd (run_state application [])) =
     [''App: Launched with the TruckCreator.'',
      ''TransportCreator: The same creator's code has just worked with {Transport by land}'',
      ''App: Launched with the ShipCreator.'',
      ''TransportCreator: The same creator's code has just worked with {Transport by sea}'']"
  by (simp add: application_def clientCode_def run_console_log someOperation_def
      TruckCreator_def ShipCreator_def Truck_def Ship_def)

text \<open>
  C8: the script adds exactly seven lines to the output, in this order: the Truck
  announcement, the client line, the Truck result, an empty line, the Ship announcement,
  the client line again, the Ship result.
\<close>

theorem application_output:
  "run_state application out =
     ((), out @
       [''App: Launched with the TruckCreator.'',
        ''Client: I'm not aware of the creator's class, but it still works.'',
        ''TransportCreator: The same creator's code has just worked with {Transport by land}'',
        [],
        ''App: Launched with the ShipCreator.'',
        ''Client: I'm not aware of the creator's class, but it still works.'',
        ''TransportCreator: The same creator's code has just worked with {Transport by sea}''])"
  by (simp add: application_def clientCode_def run_console_log someOperation_def
      TruckCreator_def ShipCreator_def Truck_def Ship_def)

end
